theory Spec2Isabelle
  imports Complex_Main "HOL-Library.Sublist"
begin

section \<open>Data model of \<open>scripts/filter_photos.py\<close>\<close>

text \<open>
  The module defines one class, \<open>MacPhotosFilter\<close>, over three external libraries:
  the media catalogue (\<open>osxphotos\<close>), the geocoder and the geodesic distance (\<open>geopy\<close>)
  and the image library (\<open>PIL\<close>). None of them is part of the repository, so each is a
  parameter of the functions that call it.

  Python floats are read as \<open>real\<close>: the code only stores and compares them, it does no
  float arithmetic of its own. A \<open>Tuple[float, float]\<close> is a pair.

  A \<open>datetime\<close> is naive (a wall-clock reading without time zone, as \<open>datetime.now()\<close>
  and \<open>datetime(1970, 1, 1)\<close> give) or aware (an instant with its time zone, as the
  catalogue gives for a capture date); either way a count of microseconds. Python
  compares two naive or two aware values and raises \<open>TypeError\<close> when asked to compare a
  naive with an aware one.

  The location the catalogue reports for a record is a tuple of latitude and longitude in
  which each component is a float or \<open>None\<close>; for a record without coordinates it is the
  tuple \<open>(None, None)\<close>. The attribute itself may also be \<open>None\<close>, as a hand-made record
  can have it.
\<close>

datatype datetime = Naive int | Aware int

type_synonym latlon = "real \<times> real"
type_synonym coordinates = "real option \<times> real option"

definition timedelta_days :: "int \<Rightarrow> int" where
  "timedelta_days n = n * 86400000000"

text \<open>
  \<open>osxphotos.PhotoInfo\<close>, with the attributes the class reads: \<open>date\<close>, \<open>location\<close>,
  \<open>isphoto\<close>, \<open>ismovie\<close>, \<open>filename\<close> and \<open>path\<close>.
\<close>

record photo_info =
  filename :: string
  date :: datetime
  location :: "coordinates option"
  isphoto :: bool
  ismovie :: bool
  path :: string

text \<open>The \<open>defaults\<close> table of the parsed \<open>config.toml\<close>; every key is optional.\<close>

record config_defaults =
  cfg_home_address :: "string option"
  cfg_target_latlon :: "latlon option"
  cfg_max_distance_km :: "real option"

text \<open>
  The exceptions that can leave a method: the two \<open>ValueError\<close>s the constructor raises
  itself, the \<open>TypeError\<close> of a comparison of dates, and the ones of the external calls,
  which the class does not catch (\<open>open\<close> and \<open>tomllib.load\<close>, the geocoder's network
  call, the export primitive).
\<close>

datatype error =
    ValueError string
  | TypeError
  | OSError
  | TOMLDecodeError
  | GeocoderServiceError
  | ExportError

text \<open>The attributes of a \<open>MacPhotosFilter\<close> object.\<close>

record mac_photos_filter =
  config :: config_defaults
  home_address :: "string option"
  max_distance_km :: real
  start_date :: datetime
  end_date :: datetime
  target_location :: latlon
  photosdb :: "photo_info list"
  filtered_media :: "photo_info list"

text \<open>
  \<open>photosdb\<close> stands for the catalogue object; the field holds what its \<open>photos()\<close>
  enumerates, in enumeration order.

  \<open>geopy.distance.geodesic(p, q).km\<close> is a parameter of type \<open>geodesic\<close>. Its first
  argument is the target location, its second the tuple
  \<open>(m.location[0], m.location[1])\<close> as the record has it.
\<close>

type_synonym geodesic = "latlon \<Rightarrow> coordinates \<Rightarrow> real"

section \<open>Filtering\<close>

text \<open>
  \<open>a <= b\<close> on dates, and the chained \<open>a <= b <= c\<close>, which compares \<open>b\<close> with \<open>c\<close>
  only when \<open>a <= b\<close> holds.
\<close>

fun datetime_le :: "datetime \<Rightarrow> datetime \<Rightarrow> error + bool" where
  "datetime_le (Naive a) (Naive b) = Inr (a \<le> b)"
| "datetime_le (Aware a) (Aware b) = Inr (a \<le> b)"
| "datetime_le (Naive a) (Aware b) = Inl TypeError"
| "datetime_le (Aware a) (Naive b) = Inl TypeError"

definition datetime_between :: "datetime \<Rightarrow> datetime \<Rightarrow> datetime \<Rightarrow> error + bool" where
  "datetime_between a b c =
     (case datetime_le a b of
        Inl e \<Rightarrow> Inl e
      | Inr holds \<Rightarrow> if holds then datetime_le b c else Inr False)"

text \<open>
  A list comprehension \<open>[x for x in xs if cond(x)]\<close> whose condition may raise: the
  first exception ends it.
\<close>

fun comprehension :: "('a \<Rightarrow> error + bool) \<Rightarrow> 'a list \<Rightarrow> error + 'a list" where
  "comprehension cond [] = Inr []"
| "comprehension cond (x # xs) =
     (case cond x of
        Inl e \<Rightarrow> Inl e
      | Inr keep \<Rightarrow>
          (case comprehension cond xs of
             Inl e \<Rightarrow> Inl e
           | Inr rest \<Rightarrow> Inr (if keep then x # rest else rest)))"

text \<open>
  \<open>filter_media\<close>: two list comprehensions, the first on date and kind, the second on
  location and distance. In the first the comparison of dates can raise, and then
  nothing is assigned. In the second \<open>m.location\<close> is tested for truth: \<open>None\<close> is falsy,
  a tuple of two components is truthy whatever they are. The result is stored in
  \<open>filtered_media\<close> and returned.
\<close>

definition filter_media ::
  "geodesic \<Rightarrow> mac_photos_filter \<Rightarrow> string
     \<Rightarrow> error + photo_info list \<times> mac_photos_filter" where
  "filter_media geodesic_km self media_type =
     (case comprehension
             (\<lambda>p. case datetime_between (start_date self) (date p) (end_date self) of
                    Inl e \<Rightarrow> Inl e
                  | Inr in_range \<Rightarrow>
                      Inr (in_range
                           \<and> ((media_type = ''all'')
                                \<or> (media_type = ''photo'' \<and> isphoto p)
                                \<or> (media_type = ''video'' \<and> ismovie p))))
             (photosdb self) of
        Inl e \<Rightarrow> Inl e
      | Inr media \<Rightarrow>
          (let self' = self\<lparr>filtered_media :=
                 [m \<leftarrow> media.
                    (case location m of
                       None \<Rightarrow> False
                     | Some loc \<Rightarrow>
                         geodesic_km (target_location self) (fst loc, snd loc)
                           \<le> max_distance_km self)]\<rparr>
           in Inr (filtered_media self', self')))"

definition clear_filters :: "mac_photos_filter \<Rightarrow> mac_photos_filter" where
  "clear_filters self = self\<lparr>filtered_media := []\<rparr>"

text \<open>
  The kind test in the words of the specification: \<open>all\<close> matches every record,
  \<open>photo\<close> the records flagged as photos, \<open>video\<close> the records flagged as movies.
\<close>

definition kind_matches :: "string \<Rightarrow> photo_info \<Rightarrow> bool" where
  "kind_matches media_type p \<longleftrightarrow>
     (if media_type = ''all'' then True
      else if media_type = ''photo'' then isphoto p
      else if media_type = ''video'' then ismovie p
      else False)"

text \<open>A record has coordinates when its location is a tuple of two floats.\<close>

definition has_coordinates :: "photo_info \<Rightarrow> bool" where
  "has_coordinates p \<longleftrightarrow>
     (case location p of Some (Some lat, Some lon) \<Rightarrow> True | _ \<Rightarrow> False)"


section \<open>Construction and the geocoder\<close>

text \<open>
  \<open>geopy\<close>'s \<open>Nominatim.geocode\<close> is a parameter of type \<open>geocoder\<close>. It returns a
  \<open>Location\<close> object, or \<open>None\<close> when the service finds no match; a failure of the
  network call (time-out, service unavailable) is an exception of \<open>geopy\<close>, here
  \<open>Inl\<close>.
\<close>

record geo_location =
  address :: string
  latitude :: real
  longitude :: real

type_synonym geocoder = "string \<Rightarrow> error + geo_location option"

text \<open>
  \<open>address_to_gps\<close> has no \<open>try\<close>: an exception of the lookup leaves the method as it
  is. A \<open>Location\<close> is truthy, \<open>None\<close> is not.
\<close>

definition address_to_gps :: "geocoder \<Rightarrow> string \<Rightarrow> error + latlon option" where
  "address_to_gps geolocator_geocode addr =
     (case geolocator_geocode addr of
        Inl e \<Rightarrow> Inl e
      | Inr None \<Rightarrow> Inr None
      | Inr (Some loc) \<Rightarrow> Inr (Some (latitude loc, longitude loc)))"

text \<open>
  The constructor. Its arguments are \<open>start_date\<close>, \<open>end_date\<close>, \<open>target_location\<close>,
  the outcome of reading and parsing the file at \<open>config_path\<close> (an exception, or the
  \<open>defaults\<close> table), and \<open>max_distance_km\<close>; then the environment: the wall-clock
  reading of \<open>datetime.now()\<close>, the geocoder and the contents of the catalogue.

  Truthiness follows Python: a pair is always truthy, so \<open>if target_location\<close> and
  \<open>defaults.get("target_latlon")\<close> test for presence; the empty string is falsy, so an
  empty \<open>home_address\<close> counts as absent.
\<close>

definition init ::
  "datetime \<Rightarrow> datetime option \<Rightarrow> latlon option \<Rightarrow> error + config_defaults \<Rightarrow> real option
     \<Rightarrow> int \<Rightarrow> geocoder \<Rightarrow> photo_info list \<Rightarrow> error + mac_photos_filter" where
  "init start_date_arg end_date_arg target_location_arg config_file max_distance_km_arg
        now geolocator_geocode catalogue =
     (case config_file of
        Inl e \<Rightarrow> Inl e
      | Inr defaults \<Rightarrow>
          (let build = (\<lambda>target.
                 \<lparr>config = defaults,
                  home_address = cfg_home_address defaults,
                  max_distance_km =
                    (case max_distance_km_arg of
                       Some d \<Rightarrow> d
                     | None \<Rightarrow>
                         (case cfg_max_distance_km defaults of Some d \<Rightarrow> d | None \<Rightarrow> 2)),
                  start_date = start_date_arg,
                  end_date =
                    (case end_date_arg of
                       Some e \<Rightarrow> e
                     | None \<Rightarrow> Naive (now - timedelta_days 1)),
                  target_location = target,
                  photosdb = catalogue,
                  filtered_media = []\<rparr>)
           in case target_location_arg of
                Some target \<Rightarrow> Inr (build target)
              | None \<Rightarrow>
                  (case cfg_target_latlon defaults of
                     Some latlon \<Rightarrow> Inr (build latlon)
                   | None \<Rightarrow>
                       (case cfg_home_address defaults of
                          None \<Rightarrow>
                            Inl (ValueError
                              ''Must specify either target_location or home_address or target_latlon in config'')
                        | Some home \<Rightarrow>
                            if home = [] then
                              Inl (ValueError
                                ''Must specify either target_location or home_address or target_latlon in config'')
                            else
                              (case address_to_gps geolocator_geocode home of
                                 Inl e \<Rightarrow> Inl e
                               | Inr None \<Rightarrow> Inl (ValueError ''Could not geocode home_address'')
                               | Inr (Some coords) \<Rightarrow> Inr (build coords))))))"

section \<open>Mutators\<close>

definition set_date_range ::
  "int \<Rightarrow> mac_photos_filter \<Rightarrow> datetime \<Rightarrow> datetime option \<Rightarrow> mac_photos_filter" where
  "set_date_range now self start_date_arg end_date_arg =
     self\<lparr>start_date := start_date_arg,
          end_date := (case end_date_arg of
                         Some e \<Rightarrow> e
                       | None \<Rightarrow> Naive (now - timedelta_days 1))\<rparr>"

definition set_location_by_address ::
  "geocoder \<Rightarrow> mac_photos_filter \<Rightarrow> string \<Rightarrow> error + bool \<times> mac_photos_filter" where
  "set_location_by_address geolocator_geocode self addr =
     (case address_to_gps geolocator_geocode addr of
        Inl e \<Rightarrow> Inl e
      | Inr (Some coords) \<Rightarrow> Inr (True, self\<lparr>target_location := coords\<rparr>)
      | Inr None \<Rightarrow> Inr (False, self))"

definition set_location_by_gps :: "mac_photos_filter \<Rightarrow> real \<Rightarrow> real \<Rightarrow> mac_photos_filter" where
  "set_location_by_gps self lat lon = self\<lparr>target_location := (lat, lon)\<rparr>"

definition set_distance_km :: "mac_photos_filter \<Rightarrow> real \<Rightarrow> mac_photos_filter" where
  "set_distance_km self distance = self\<lparr>max_distance_km := distance\<rparr>"

section \<open>Thumbnails\<close>

text \<open>Python's \<open>str\<close> of a non-negative \<open>int\<close>, for the counter in the file name.\<close>

function str_nat :: "nat \<Rightarrow> string" where
  "str_nat n =
     (if n < 10 then [''0123456789'' ! n]
      else str_nat (n div 10) @ [''0123456789'' ! (n mod 10)])"
  by pat_completeness auto
termination
  by (relation "measure id") auto

declare str_nat.simps [simp del]

definition thumb_name :: "nat \<Rightarrow> photo_info \<Rightarrow> string" where
  "thumb_name count media = ''thumb_'' @ str_nat count @ ''_'' @ filename media"

text \<open>
  The image library, as one call: \<open>Image.open(path)\<close>, \<open>img.thumbnail(thumb_size)\<close> and
  \<open>img.save(thumb_file)\<close>. It returns \<open>None\<close> when all three succeed and the text of the
  exception when one of them raises. The thumbnail file \<open>out_path / name\<close> is kept as the
  pair of the directory and the file name.

  What the loop does is a list of events: a thumbnail saved for a record, or the line
  printed for a record whose thumbnail failed.
\<close>

type_synonym image_lib = "string \<Rightarrow> int \<times> int \<Rightarrow> string \<times> string \<Rightarrow> string option"

datatype thumb_event =
    Saved photo_info "string \<times> string"
  | Failed photo_info string

fun thumbnails_loop ::
  "image_lib \<Rightarrow> string \<Rightarrow> int \<times> int \<Rightarrow> int \<Rightarrow> nat \<Rightarrow> photo_info list \<Rightarrow> thumb_event list" where
  "thumbnails_loop pil out_dir thumb_size max_media count [] = []"
| "thumbnails_loop pil out_dir thumb_size max_media count (media # rest) =
     (if int count \<ge> max_media then []
      else
        (case pil (path media) thumb_size (out_dir, thumb_name count media) of
           None \<Rightarrow>
             Saved media (out_dir, thumb_name count media)
               # thumbnails_loop pil out_dir thumb_size max_media (count + 1) rest
         | Some e \<Rightarrow>
             Failed media (''Error creating thumbnail for '' @ filename media @ '': '' @ e)
               # thumbnails_loop pil out_dir thumb_size max_media count rest))"

text \<open>\<open>mkdir\<close> is \<open>Path.mkdir(parents=True, exist_ok=True)\<close>: \<open>None\<close>, or the exception.\<close>

definition save_thumbnails ::
  "(string \<Rightarrow> error option) \<Rightarrow> image_lib \<Rightarrow> mac_photos_filter \<Rightarrow> string \<Rightarrow> int \<times> int \<Rightarrow> int
     \<Rightarrow> error + thumb_event list" where
  "save_thumbnails mkdir pil self out_dir thumb_size max_media =
     (case mkdir out_dir of
        Some e \<Rightarrow> Inl e
      | None \<Rightarrow> Inr (thumbnails_loop pil out_dir thumb_size max_media 0 (filtered_media self)))"

fun event_media :: "thumb_event \<Rightarrow> photo_info" where
  "event_media (Saved media file) = media"
| "event_media (Failed media line) = media"

fun is_saved :: "thumb_event \<Rightarrow> bool" where
  "is_saved (Saved media file) = True"
| "is_saved (Failed media line) = False"

definition saved_count :: "thumb_event list \<Rightarrow> nat" where
  "saved_count events = length (filter is_saved events)"

section \<open>Listing, path file and export\<close>

record media_info =
  info_filename :: string
  info_date :: datetime
  info_location :: "coordinates option"
  info_path :: string
  info_type :: string

definition list_media_info :: "mac_photos_filter \<Rightarrow> media_info list" where
  "list_media_info self =
     map (\<lambda>media.
            \<lparr>info_filename = filename media,
             info_date = date media,
             info_location = location media,
             info_path = path media,
             info_type = (if isphoto media then ''photo'' else ''video'')\<rparr>)
         (filtered_media self)"

text \<open>
  The file system is a map from file names to contents. \<open>open(filepath, "w")\<close> either
  raises (\<open>can_open\<close> is false) or gives an empty file, to which each \<open>f.write\<close> appends.
\<close>

type_synonym files = "string \<rightharpoonup> string"

definition newline :: char where
  "newline = CHR 0x0A"

fun write_paths :: "string \<Rightarrow> photo_info list \<Rightarrow> string" where
  "write_paths f [] = f"
| "write_paths f (media # rest) = write_paths (f @ path media @ [newline]) rest"

definition save_filtered_media_paths ::
  "(string \<Rightarrow> bool) \<Rightarrow> mac_photos_filter \<Rightarrow> string \<Rightarrow> files \<Rightarrow> error + files" where
  "save_filtered_media_paths can_open self filepath fs =
     (if can_open filepath
      then Inr (fs(filepath \<mapsto> write_paths [] (filtered_media self)))
      else Inl OSError)"

text \<open>
  The lines of a text: each maximal run of characters that a newline ends (and a last
  run without a newline, when it is not empty).
\<close>

fun lines_from :: "string \<Rightarrow> string \<Rightarrow> string list" where
  "lines_from cur [] = (if cur = [] then [] else [cur])"
| "lines_from cur (c # cs) =
     (if c = newline then cur # lines_from [] cs else lines_from (cur @ [c]) cs)"

definition text_lines :: "string \<Rightarrow> string list" where
  "text_lines txt = lines_from [] txt"

text \<open>
  \<open>export_filtered_media\<close>: \<open>export\<close> is the record's own export primitive; its first
  exception ends the loop and the method. The result lists the records exported.
\<close>

fun export_loop ::
  "(photo_info \<Rightarrow> string \<Rightarrow> bool \<Rightarrow> bool \<Rightarrow> error option) \<Rightarrow> string \<Rightarrow> bool \<Rightarrow> bool
     \<Rightarrow> photo_info list \<Rightarrow> error + photo_info list" where
  "export_loop export export_dir original edited [] = Inr []"
| "export_loop export export_dir original edited (media # rest) =
     (case export media export_dir original edited of
        Some e \<Rightarrow> Inl e
      | None \<Rightarrow>
          (case export_loop export export_dir original edited rest of
             Inl e \<Rightarrow> Inl e
           | Inr done \<Rightarrow> Inr (media # done)))"

definition export_filtered_media ::
  "(string \<Rightarrow> error option) \<Rightarrow> (photo_info \<Rightarrow> string \<Rightarrow> bool \<Rightarrow> bool \<Rightarrow> error option)
     \<Rightarrow> mac_photos_filter \<Rightarrow> string \<Rightarrow> bool \<Rightarrow> bool \<Rightarrow> error + photo_info list" where
  "export_filtered_media mkdir export self export_dir original edited =
     (case mkdir export_dir of
        Some e \<Rightarrow> Inl e
      | None \<Rightarrow> export_loop export export_dir original edited (filtered_media self))"

section \<open>Sequences of calls on one object\<close>

text \<open>
  A call of one of the methods, and the object after it. The methods that write files or
  return a listing assign no attribute; a call that raises has assigned none either.
\<close>

datatype method_call =
    SetDateRange datetime "datetime option"
  | SetLocationByAddress string
  | SetLocationByGps real real
  | SetDistanceKm real
  | FilterMedia string
  | SaveThumbnails string "int \<times> int" int
  | ListMediaInfo
  | SaveFilteredMediaPaths string
  | ExportFilteredMedia string bool bool
  | ClearFilters

fun after_call ::
  "int \<Rightarrow> geocoder \<Rightarrow> geodesic \<Rightarrow> mac_photos_filter \<Rightarrow> method_call \<Rightarrow> mac_photos_filter" where
  "after_call now geo g self (SetDateRange s e) = set_date_range now self s e"
| "after_call now geo g self (SetLocationByAddress a) =
     (case set_location_by_address geo self a of
        Inl e \<Rightarrow> self
      | Inr (ok, self') \<Rightarrow> self')"
| "after_call now geo g self (SetLocationByGps lat lon) = set_location_by_gps self lat lon"
| "after_call now geo g self (SetDistanceKm d) = set_distance_km self d"
| "after_call now geo g self (FilterMedia media_type) =
     (case filter_media g self media_type of
        Inl e \<Rightarrow> self
      | Inr (media, self') \<Rightarrow> self')"
| "after_call now geo g self (SaveThumbnails out_dir thumb_size max_media) = self"
| "after_call now geo g self ListMediaInfo = self"
| "after_call now geo g self (SaveFilteredMediaPaths filepath) = self"
| "after_call now geo g self (ExportFilteredMedia export_dir original edited) = self"
| "after_call now geo g self ClearFilters = clear_filters self"

fun after_calls ::
  "int \<Rightarrow> geocoder \<Rightarrow> geodesic \<Rightarrow> mac_photos_filter \<Rightarrow> method_call list \<Rightarrow> mac_photos_filter" where
  "after_calls now geo g self [] = self"
| "after_calls now geo g self (c # cs) = after_calls now geo g (after_call now geo g self c) cs"

fun distance_arg_positive :: "method_call \<Rightarrow> bool" where
  "distance_arg_positive (SetDistanceKm d) = (0 < d)"
| "distance_arg_positive c = True"

section \<open>The three-record scenario of the tests\<close>

text \<open>
  The catalogue of \<open>tests/test_filter_photos.py\<close>: (a) a photo one day old at
  (-33.85, 151.15), (b) a photo two days old at (-33.90, 151.20), (c) a video one day old
  at (-33.85, 151.15); the configuration gives the radius 10 km and the target
  (-33.85, 151.15); the window is the last three days.
\<close>

definition record_a :: "int \<Rightarrow> photo_info" where
  "record_a now =
     \<lparr>filename = ''test.jpg'', date = Naive (now - timedelta_days 1),
      location = Some (Some (- 3385 / 100), Some (15115 / 100)),
      isphoto = True, ismovie = False, path = ''/tmp/test.jpg''\<rparr>"

definition record_b :: "int \<Rightarrow> photo_info" where
  "record_b now =
     \<lparr>filename = ''test.jpg'', date = Naive (now - timedelta_days 2),
      location = Some (Some (- 3390 / 100), Some (15120 / 100)),
      isphoto = True, ismovie = False, path = ''/tmp/test.jpg''\<rparr>"

definition record_c :: "int \<Rightarrow> photo_info" where
  "record_c now =
     \<lparr>filename = ''test.jpg'', date = Naive (now - timedelta_days 1),
      location = Some (Some (- 3385 / 100), Some (15115 / 100)),
      isphoto = False, ismovie = True, path = ''/tmp/test.jpg''\<rparr>"

definition default_config :: config_defaults where
  "default_config =
     \<lparr>cfg_home_address = None,
      cfg_target_latlon = Some (- 3385 / 100, 15115 / 100),
      cfg_max_distance_km = Some 10\<rparr>"

definition no_match :: geocoder where
  "no_match addr = Inr None"

definition scenario :: "int \<Rightarrow> error + mac_photos_filter" where
  "scenario now =
     init (Naive (now - timedelta_days 3)) (Some (Naive now)) None (Inr default_config) None
       now no_match
       [record_a now, record_b now, record_c now]"

text \<open>
  The point \<open>geopy\<close> makes of a tuple: a component that is \<open>None\<close> is read as 0.0.
\<close>

definition geopy_point :: "coordinates \<Rightarrow> latlon" where
  "geopy_point c =
     ((case fst c of None \<Rightarrow> 0 | Some lat \<Rightarrow> lat),
      (case snd c of None \<Rightarrow> 0 | Some lon \<Rightarrow> lon))"

text \<open>
  The geodesic distances between the points of the scenario, in kilometres on the
  WGS-84 ellipsoid, to the metre: 0 from a point to itself, 7.222 between
  (-33.85, 151.15) and (-33.90, 151.20). No other pair of points occurs there.
\<close>

definition scenario_geodesic_km :: geodesic where
  "scenario_geodesic_km p q = (if p = geopy_point q then 0 else 7222 / 1000)"

definition scenario_object :: "int \<Rightarrow> mac_photos_filter" where
  "scenario_object now =
     \<lparr>config = default_config, home_address = None, max_distance_km = 10,
      start_date = Naive (now - timedelta_days 3), end_date = Naive now,
      target_location = (- 3385 / 100, 15115 / 100),
      photosdb = [record_a now, record_b now, record_c now],
      filtered_media = []\<rparr>"

section \<open>Further concrete inputs\<close>

text \<open>
  A record without coordinates, as the catalogue reports it, and the object that the
  constructor builds from the configuration of \<open>test_no_media_out_of_range\<close> (radius
  0.01 km, target (0.0, 0.0)) over a catalogue that holds this record alone.
\<close>

definition record_nowhere :: photo_info where
  "record_nowhere =
     \<lparr>filename = ''scan.png'', date = Naive (- timedelta_days 1), location = Some (None, None),
      isphoto = True, ismovie = False, path = ''/tmp/scan.png''\<rparr>"

definition origin_config :: config_defaults where
  "origin_config =
     \<lparr>cfg_home_address = None,
      cfg_target_latlon = Some (0, 0),
      cfg_max_distance_km = Some (1 / 100)\<rparr>"

definition origin_object :: mac_photos_filter where
  "origin_object =
     \<lparr>config = origin_config, home_address = None, max_distance_km = 1 / 100,
      start_date = Naive (- timedelta_days 3), end_date = Naive 0,
      target_location = (0, 0),
      photosdb = [record_nowhere],
      filtered_media = []\<rparr>"

text \<open>
  A record with the time-zone aware capture date of the catalogue, and the object that
  the constructor builds with its default dates (both naive) over a catalogue that
  holds this record alone.
\<close>

definition record_aware :: photo_info where
  "record_aware =
     \<lparr>filename = ''IMG_0001.jpg'', date = Aware 1700000000000000,
      location = Some (Some (- 3385 / 100), Some (15115 / 100)),
      isphoto = True, ismovie = False, path = ''/lib/IMG_0001.jpg''\<rparr>"

definition default_dates_object :: mac_photos_filter where
  "default_dates_object =
     \<lparr>config = default_config, home_address = None, max_distance_km = 10,
      start_date = Naive 0, end_date = Naive (1800000000000000 - timedelta_days 1),
      target_location = (- 3385 / 100, 15115 / 100),
      photosdb = [record_aware],
      filtered_media = []\<rparr>"

text \<open>
  A geocoder that finds a place and one whose network call fails; a configuration that
  only has a home address.
\<close>

definition sydney :: geo_location where
  "sydney = \<lparr>address = ''Sydney NSW, Australia'', latitude = - 3387 / 100, longitude = 15121 / 100\<rparr>"

definition finds_sydney :: geocoder where
  "finds_sydney addr = Inr (Some sydney)"

definition network_down :: geocoder where
  "network_down addr = Inl GeocoderServiceError"

definition home_config :: config_defaults where
  "home_config =
     \<lparr>cfg_home_address = Some ''1 Seymour St'', cfg_target_latlon = None,
      cfg_max_distance_km = None\<rparr>"

section \<open>The sources of the target location\<close>

text \<open>
  The third source in the words of the specification: the coordinates that geocoding the
  configured \<open>home_address\<close> yields, if there is an address and the lookup finds it.
\<close>

definition geocoded_home :: "geocoder \<Rightarrow> config_defaults \<Rightarrow> latlon option" where
  "geocoded_home geo defaults =
     (case cfg_home_address defaults of
        None \<Rightarrow> None
      | Some home \<Rightarrow>
          (if home = [] then None
           else (case address_to_gps geo home of Inr (Some coords) \<Rightarrow> Some coords | _ \<Rightarrow> None)))"

section \<open>Notions used in the properties\<close>

text \<open>
  One pass of the thumbnail loop for a record, with the counter at \<open>k\<close>: the thumbnail
  saved under the name made from \<open>k\<close>, or the line printed when the image library raises.
\<close>

definition thumb_attempt :: "image_lib \<Rightarrow> string \<Rightarrow> int \<times> int \<Rightarrow> nat \<Rightarrow> photo_info \<Rightarrow> thumb_event" where
  "thumb_attempt pil out_dir thumb_size k media =
     (case pil (path media) thumb_size (out_dir, thumb_name k media) of
        None \<Rightarrow> Saved media (out_dir, thumb_name k media)
      | Some e \<Rightarrow>
          Failed media (''Error creating thumbnail for '' @ filename media @ '': '' @ e))"

text \<open>
  The maximum distance the constructor stores: the argument, else the configured value,
  else 2.0.
\<close>

definition resolved_max_distance :: "real option \<Rightarrow> config_defaults \<Rightarrow> real" where
  "resolved_max_distance max_distance_km_arg defaults =
     (case max_distance_km_arg of
        Some d \<Rightarrow> d
      | None \<Rightarrow> (case cfg_max_distance_km defaults of Some d \<Rightarrow> d | None \<Rightarrow> 2))"

text \<open>
  What \<open>save_filtered_media_paths\<close> is to write for one record: its path and a newline.
\<close>

definition path_line :: "photo_info \<Rightarrow> string" where
  "path_line media = path media @ [newline]"

text \<open>
  An object whose filtered set holds four files, an image library that cannot read the
  movie among them, and the events expected of \<open>save_thumbnails\<close> with \<open>max_media = 2\<close>;
  a file system with two files.
\<close>

definition picture :: "string \<Rightarrow> photo_info" where
  "picture name =
     \<lparr>filename = name, date = Naive 0, location = Some (Some 0, Some 0),
      isphoto = True, ismovie = False, path = ''/lib/'' @ name\<rparr>"

definition stills_only :: image_lib where
  "stills_only file thumb_size thumb_file =
     (if file = ''/lib/b.mov'' then Some ''cannot identify image file'' else None)"

definition mkdir_ok :: "string \<Rightarrow> error option" where
  "mkdir_ok dir = None"

definition album :: mac_photos_filter where
  "album = (scenario_object 0)\<lparr>filtered_media :=
     [picture ''a.jpg'', picture ''b.mov'', picture ''c.jpg'', picture ''d.jpg'']\<rparr>"

definition album_events :: "thumb_event list" where
  "album_events =
     [Saved (picture ''a.jpg'') (''thumbs'', ''thumb_0_a.jpg''),
      Failed (picture ''b.mov'') ''Error creating thumbnail for b.mov: cannot identify image file'',
      Saved (picture ''c.jpg'') (''thumbs'', ''thumb_1_c.jpg'')]"

definition any_file :: "string \<Rightarrow> bool" where
  "any_file filepath = True"

definition old_files :: files where
  "old_files = [''paths.txt'' \<mapsto> ''stale'', ''notes.txt'' \<mapsto> ''keep'']"

section \<open>Properties\<close>

subsection \<open>The filter\<close>

lemma comprehension_Inr:
  "comprehension cond xs = Inr ys \<Longrightarrow> ys = [x \<leftarrow> xs. cond x = Inr True]"
  by (induction xs arbitrary: ys) (auto split: sum.splits if_splits)

lemma filter_media_frame:
  "filter_media g self mt = Inr (media, self') \<Longrightarrow> self' = self\<lparr>filtered_media := media\<rparr>"
  by (auto simp: filter_media_def Let_def split: sum.splits)

lemma filter_media_ignores_filtered:
  "filter_media g (self\<lparr>filtered_media := xs\<rparr>) mt = filter_media g self mt"
  by (simp add: filter_media_def Let_def cong: option.case_cong sum.case_cong)

lemma filter_media_twice:
  "filter_media g (after_call now geo g self (FilterMedia mt)) mt = filter_media g self mt"
proof (cases "filter_media g self mt")
  case (Inl e)
  then show ?thesis by simp
next
  case (Inr result)
  obtain media self' where result: "result = (media, self')" by (cases result)
  with Inr have "self' = self\<lparr>filtered_media := media\<rparr>"
    by (simp add: filter_media_frame)
  with Inr result show ?thesis
    by (simp add: filter_media_ignores_filtered)
qed

text \<open>
  What the two comprehensions amount to when no comparison raises: a record of the
  enumeration is returned exactly when its date is in the window, its kind matches, its
  location is a tuple and the geodesic distance of that tuple is within the maximum.
\<close>

lemma filter_media_member:
  assumes "filter_media g self mt = Inr (media, self')"
  shows "p \<in> set media \<longleftrightarrow>
    p \<in> set (photosdb self)
    \<and> datetime_between (start_date self) (date p) (end_date self) = Inr True
    \<and> kind_matches mt p
    \<and> (\<exists>loc. location p = Some loc \<and> g (target_location self) loc \<le> max_distance_km self)"
proof -
  from assms obtain kept where
    kept: "comprehension
             (\<lambda>p. case datetime_between (start_date self) (date p) (end_date self) of
                    Inl e \<Rightarrow> Inl e
                  | Inr in_range \<Rightarrow>
                      Inr (in_range
                           \<and> ((mt = ''all'')
                                \<or> (mt = ''photo'' \<and> isphoto p)
                                \<or> (mt = ''video'' \<and> ismovie p))))
             (photosdb self) = Inr kept" and
    media: "media = [m \<leftarrow> kept.
                (case location m of
                   None \<Rightarrow> False
                 | Some loc \<Rightarrow> g (target_location self) (fst loc, snd loc) \<le> max_distance_km self)]"
    by (auto simp: filter_media_def Let_def split: sum.splits)
  show ?thesis
    unfolding media comprehension_Inr [OF kept]
    by (auto simp: kind_matches_def split: sum.splits option.splits)
qed

lemma filter_media_subseq:
  assumes "filter_media g self mt = Inr (media, self')"
  shows "subseq media (photosdb self)"
proof -
  from assms obtain kept where
    kept: "comprehension
             (\<lambda>p. case datetime_between (start_date self) (date p) (end_date self) of
                    Inl e \<Rightarrow> Inl e
                  | Inr in_range \<Rightarrow>
                      Inr (in_range
                           \<and> ((mt = ''all'')
                                \<or> (mt = ''photo'' \<and> isphoto p)
                                \<or> (mt = ''video'' \<and> ismovie p))))
             (photosdb self) = Inr kept" and
    media: "subseq media kept"
    by (auto simp: filter_media_def Let_def split: sum.splits)
  from comprehension_Inr [OF kept] have "subseq kept (photosdb self)" by simp
  with media show ?thesis by (rule subseq_order.order_trans)
qed

lemma scenario_is_object: "scenario now = Inr (scenario_object now)"
  by (simp add: scenario_def scenario_object_def init_def default_config_def)

lemma origin_is_object:
  "init (Naive (- timedelta_days 3)) (Some (Naive 0)) None (Inr origin_config) None 0 no_match
     [record_nowhere] = Inr origin_object"
  by (simp add: origin_object_def init_def origin_config_def)

text \<open>
  C1 fails on the code for a record without coordinates. The catalogue reports such a
  record with the location \<open>(None, None)\<close>, which is a tuple and so passes the test
  \<open>if m.location\<close>; the geodesic distance is then taken from the point (0.0, 0.0). With
  the target (0.0, 0.0) and the radius 0.01 km of \<open>test_no_media_out_of_range\<close>, a
  photo without coordinates whose date is inside the window is returned and stored.
\<close>

theorem filter_media_returns_record_without_coordinates:
  "init (Naive (- timedelta_days 3)) (Some (Naive 0)) None (Inr origin_config) None 0 no_match
     [record_nowhere] = Inr origin_object
   \<and> location record_nowhere = Some (None, None)
   \<and> \<not> has_coordinates record_nowhere
   \<and> filter_media scenario_geodesic_km origin_object ''all''
       = Inr ([record_nowhere], origin_object\<lparr>filtered_media := [record_nowhere]\<rparr>)"
  by (simp add: origin_is_object)
     (simp add: filter_media_def origin_object_def record_nowhere_def has_coordinates_def
        datetime_between_def scenario_geodesic_km_def geopy_point_def timedelta_days_def)

text \<open>
  With the dates the constructor takes by default, both naive, and a record whose capture
  date is time-zone aware, the comparison of dates raises and \<open>filter_media\<close> returns
  nothing at all.
\<close>

lemma filter_media_default_dates_raise:
  "init (Naive 0) None None (Inr default_config) None 1800000000000000 no_match [record_aware]
     = Inr default_dates_object
   \<and> filter_media g default_dates_object media_type = Inl TypeError"
  by (simp add: init_def default_config_def default_dates_object_def filter_media_def
        record_aware_def datetime_between_def)

text \<open>
  C4. Calling \<open>filter_media\<close> a second time, with the same media type and nothing
  changed in between, gives what the first call gave: when the first call returns a
  sequence and leaves an object, the second call on that object returns the same
  sequence and leaves the same object, whose filtered set is that sequence; when the
  first call raises, the object is as before and the second call raises the same.
\<close>

theorem filter_media_idempotent:
  "filter_media g (after_call now geo g self (FilterMedia mt)) mt = filter_media g self mt
   \<and> (\<forall>media self'. filter_media g self mt = Inr (media, self') \<longrightarrow>
        filter_media g self' mt = Inr (media, self') \<and> filtered_media self' = media)"
proof (intro conjI allI impI)
  show "filter_media g (after_call now geo g self (FilterMedia mt)) mt = filter_media g self mt"
    by (rule filter_media_twice)
next
  fix media self'
  assume first: "filter_media g self mt = Inr (media, self')"
  then have self': "self' = self\<lparr>filtered_media := media\<rparr>" by (rule filter_media_frame)
  then show "filter_media g self' mt = Inr (media, self')"
    using first by (simp add: filter_media_ignores_filtered)
  from self' show "filtered_media self' = media" by simp
qed

lemma scenario_all:
  "filter_media scenario_geodesic_km (scenario_object 0) ''all''
     = Inr ([record_a 0, record_b 0, record_c 0],
            (scenario_object 0)\<lparr>filtered_media := [record_a 0, record_b 0, record_c 0]\<rparr>)"
  by (simp add: filter_media_def scenario_object_def record_a_def record_b_def record_c_def
        datetime_between_def scenario_geodesic_km_def geopy_point_def timedelta_days_def)

theorem filter_media_idempotent_witness:
  "filter_media scenario_geodesic_km (scenario_object 0) ''all''
     = Inr ([record_a 0, record_b 0, record_c 0],
            (scenario_object 0)\<lparr>filtered_media := [record_a 0, record_b 0, record_c 0]\<rparr>)
   \<and> filter_media scenario_geodesic_km
        ((scenario_object 0)\<lparr>filtered_media := [record_a 0, record_b 0, record_c 0]\<rparr>) ''all''
     = Inr ([record_a 0, record_b 0, record_c 0],
            (scenario_object 0)\<lparr>filtered_media := [record_a 0, record_b 0, record_c 0]\<rparr>)"
  using filter_media_idempotent [of scenario_geodesic_km _ _ "scenario_object 0" "''all''"]
    scenario_all
  by blast

text \<open>
  The result of \<open>filter_media\<close> is a subsequence of the enumeration (lemma
  \<open>filter_media_subseq\<close>). In the three-record scenario (a) and (c) lie at the target and
  all three dates are inside the window, so what is returned depends only on whether the
  geodesic distance of (b) is within the 10 km.
\<close>

lemma scenario_by_distance:
  assumes "h (- 3385 / 100, 15115 / 100) (Some (- 3385 / 100), Some (15115 / 100)) \<le> 10"
  shows "\<exists>p v a.
    filter_media h (scenario_object now) ''photo'' =
      Inr (if h (- 3385 / 100, 15115 / 100) (Some (- 3390 / 100), Some (15120 / 100)) \<le> 10
           then [record_a now, record_b now] else [record_a now], p)
    \<and> filter_media h (scenario_object now) ''video'' = Inr ([record_c now], v)
    \<and> filter_media h (scenario_object now) ''all'' =
      Inr (if h (- 3385 / 100, 15115 / 100) (Some (- 3390 / 100), Some (15120 / 100)) \<le> 10
           then [record_a now, record_b now, record_c now]
           else [record_a now, record_c now], a)"
  using assms
  by (simp add: filter_media_def scenario_object_def record_a_def record_b_def record_c_def
        datetime_between_def timedelta_days_def)

text \<open>
  C5 fails on the code in the scenario. Record (b) is 7.222 km from the target, inside
  the radius of 10 km, and two days old, inside the window of three days: the filter
  returns it. So \<open>photo\<close> gives [a, b] where the tests expect one record, and \<open>all\<close>
  gives [a, b, c] where they expect two; \<open>video\<close> gives [c].
\<close>

theorem scenario_filter_returns_record_b:
  "scenario 0 = Inr (scenario_object 0)
   \<and> filter_media scenario_geodesic_km (scenario_object 0) ''photo''
       = Inr ([record_a 0, record_b 0],
              (scenario_object 0)\<lparr>filtered_media := [record_a 0, record_b 0]\<rparr>)
   \<and> filter_media scenario_geodesic_km (scenario_object 0) ''video''
       = Inr ([record_c 0], (scenario_object 0)\<lparr>filtered_media := [record_c 0]\<rparr>)
   \<and> filter_media scenario_geodesic_km (scenario_object 0) ''all''
       = Inr ([record_a 0, record_b 0, record_c 0],
              (scenario_object 0)\<lparr>filtered_media := [record_a 0, record_b 0, record_c 0]\<rparr>)"
  by (simp add: scenario_is_object)
     (simp add: filter_media_def scenario_object_def record_a_def record_b_def record_c_def
        datetime_between_def scenario_geodesic_km_def geopy_point_def timedelta_days_def)

subsection \<open>Clearing\<close>

text \<open>
  C8. \<open>clear_filters\<close> sets the filtered set to the empty sequence whatever it held
  before, and leaves the start date, the end date, the target location and the maximum
  distance as they were.
\<close>

theorem clear_filters_empties_and_keeps_criteria:
  "filtered_media (clear_filters self) = []
   \<and> start_date (clear_filters self) = start_date self
   \<and> end_date (clear_filters self) = end_date self
   \<and> target_location (clear_filters self) = target_location self
   \<and> max_distance_km (clear_filters self) = max_distance_km self"
  by (simp add: clear_filters_def)

subsection \<open>Construction and geocoding\<close>

lemma init_explicit:
  "\<exists>self. init s e (Some t) (Inr d) m now geo db = Inr self \<and> target_location self = t"
  by (simp add: init_def)

lemma init_latlon:
  "cfg_target_latlon d = Some ll \<Longrightarrow>
   \<exists>self. init s e None (Inr d) m now geo db = Inr self \<and> target_location self = ll"
  by (simp add: init_def)

lemma init_home:
  "cfg_target_latlon d = None \<Longrightarrow> geocoded_home geo d = Some c \<Longrightarrow>
   \<exists>self. init s e None (Inr d) m now geo db = Inr self \<and> target_location self = c"
  by (auto simp: init_def geocoded_home_def split: option.splits if_splits sum.splits)

lemma init_fails:
  "cfg_target_latlon d = None \<Longrightarrow> geocoded_home geo d = None \<Longrightarrow>
   \<exists>err. init s e None (Inr d) m now geo db = Inl err"
  by (auto simp: init_def geocoded_home_def split: option.splits if_splits sum.splits)

text \<open>
  C2. When the configuration file has been read, the constructor takes the target
  location from the first source that has one: the \<open>target_location\<close> argument, else the
  configuration's \<open>target_latlon\<close>, else the geocoded \<open>home_address\<close>. When none of the
  three gives coordinates (no address, an empty one, or a lookup that finds nothing),
  the constructor raises and there is no object to filter with.
\<close>

theorem init_target_resolution:
  "(\<forall>t. target_arg = Some t \<longrightarrow>
      (\<exists>self. init s e target_arg (Inr d) m now geo db = Inr self \<and> target_location self = t))
   \<and> (\<forall>ll. target_arg = None \<and> cfg_target_latlon d = Some ll \<longrightarrow>
      (\<exists>self. init s e target_arg (Inr d) m now geo db = Inr self \<and> target_location self = ll))
   \<and> (\<forall>c. target_arg = None \<and> cfg_target_latlon d = None \<and> geocoded_home geo d = Some c \<longrightarrow>
      (\<exists>self. init s e target_arg (Inr d) m now geo db = Inr self \<and> target_location self = c))
   \<and> (target_arg = None \<and> cfg_target_latlon d = None \<and> geocoded_home geo d = None \<longrightarrow>
      (\<exists>err. init s e target_arg (Inr d) m now geo db = Inl err))"
  by (auto simp: init_explicit init_latlon init_home init_fails)

theorem init_target_resolution_witness:
  "(\<exists>self. init (Naive 0) None (Some (1, 2)) (Inr default_config) None 0 finds_sydney [] = Inr self
        \<and> target_location self = (1, 2))
   \<and> cfg_target_latlon default_config = Some (- 3385 / 100, 15115 / 100)
   \<and> (\<exists>self. init (Naive 0) None None (Inr default_config) None 0 finds_sydney [] = Inr self
        \<and> target_location self = (- 3385 / 100, 15115 / 100))
   \<and> cfg_target_latlon home_config = None
   \<and> geocoded_home finds_sydney home_config = Some (- 3387 / 100, 15121 / 100)
   \<and> (\<exists>self. init (Naive 0) None None (Inr home_config) None 0 finds_sydney [] = Inr self
        \<and> target_location self = (- 3387 / 100, 15121 / 100))
   \<and> geocoded_home no_match home_config = None
   \<and> (\<exists>err. init (Naive 0) None None (Inr home_config) None 0 no_match [] = Inl err)"
proof -
  have a: "cfg_target_latlon default_config = Some (- 3385 / 100, 15115 / 100)"
    by (simp add: default_config_def)
  have b: "cfg_target_latlon home_config = None"
    by (simp add: home_config_def)
  have c: "geocoded_home finds_sydney home_config = Some (- 3387 / 100, 15121 / 100)"
    by (simp add: geocoded_home_def home_config_def address_to_gps_def finds_sydney_def sydney_def)
  have d: "geocoded_home no_match home_config = None"
    by (simp add: geocoded_home_def home_config_def address_to_gps_def no_match_def)
  show ?thesis
    using a b c d
      init_target_resolution [of "Some (1, 2)" "Naive 0" None default_config None 0 finds_sydney "[]"]
      init_target_resolution [of None "Naive 0" None default_config None 0 finds_sydney "[]"]
      init_target_resolution [of None "Naive 0" None home_config None 0 finds_sydney "[]"]
      init_target_resolution [of None "Naive 0" None home_config None 0 no_match "[]"]
    by simp
qed

text \<open>
  C3. When the lookup of the address returns no coordinates, \<open>set_location_by_address\<close>
  returns \<open>False\<close> and the object is unchanged; when it returns a pair,
  \<open>set_location_by_address\<close> returns \<open>True\<close> and the object differs from the old one in
  \<open>target_location\<close> only, which is that pair.
\<close>

theorem set_location_by_address_result:
  "(address_to_gps geo addr = Inr None \<longrightarrow>
      set_location_by_address geo self addr = Inr (False, self))
   \<and> (\<forall>coords. address_to_gps geo addr = Inr (Some coords) \<longrightarrow>
      set_location_by_address geo self addr = Inr (True, self\<lparr>target_location := coords\<rparr>))"
  by (simp add: set_location_by_address_def)

theorem set_location_by_address_result_witness:
  "address_to_gps no_match ''nowhere'' = Inr None
   \<and> set_location_by_address no_match (scenario_object 0) ''nowhere'' = Inr (False, scenario_object 0)
   \<and> address_to_gps finds_sydney ''Sydney'' = Inr (Some (- 3387 / 100, 15121 / 100))
   \<and> set_location_by_address finds_sydney (scenario_object 0) ''Sydney''
       = Inr (True, (scenario_object 0)\<lparr>target_location := (- 3387 / 100, 15121 / 100)\<rparr>)"
proof -
  have a: "address_to_gps no_match ''nowhere'' = Inr None"
    by (simp add: address_to_gps_def no_match_def)
  have b: "address_to_gps finds_sydney ''Sydney'' = Inr (Some (- 3387 / 100, 15121 / 100))"
    by (simp add: address_to_gps_def finds_sydney_def sydney_def)
  show ?thesis
    using a b
      set_location_by_address_result [of no_match "''nowhere''" "scenario_object 0"]
      set_location_by_address_result [of finds_sydney "''Sydney''" "scenario_object 0"]
    by simp
qed

text \<open>
  C9 as stated fails: when the network call of the geocoder raises, \<open>address_to_gps\<close>
  raises too; it does not return \<open>None\<close>.
\<close>

theorem address_to_gps_network_error_counterexample:
  "address_to_gps network_down ''1 Seymour St'' = Inl GeocoderServiceError
   \<and> address_to_gps network_down ''1 Seymour St'' \<noteq> Inr None"
  by (simp add: address_to_gps_def network_down_def)

text \<open>
  C9, as the code has it. \<open>address_to_gps\<close> returns \<open>None\<close> when the lookup finds no
  match and the pair of latitude and longitude when it finds one; an exception of the
  lookup (a network error) is not caught and reaches the caller.
\<close>

theorem address_to_gps_outcomes:
  "(geo addr = Inr None \<longrightarrow> address_to_gps geo addr = Inr None)
   \<and> (\<forall>loc. geo addr = Inr (Some loc) \<longrightarrow>
        address_to_gps geo addr = Inr (Some (latitude loc, longitude loc)))
   \<and> (\<forall>e. geo addr = Inl e \<longrightarrow> address_to_gps geo addr = Inl e)"
  by (simp add: address_to_gps_def)

theorem address_to_gps_outcomes_witness:
  "no_match ''nowhere'' = Inr None
   \<and> address_to_gps no_match ''nowhere'' = Inr None
   \<and> finds_sydney ''Sydney'' = Inr (Some sydney)
   \<and> address_to_gps finds_sydney ''Sydney'' = Inr (Some (latitude sydney, longitude sydney))
   \<and> network_down ''Sydney'' = Inl GeocoderServiceError
   \<and> address_to_gps network_down ''Sydney'' = Inl GeocoderServiceError"
proof -
  have a: "no_match ''nowhere'' = Inr None" by (simp add: no_match_def)
  have b: "finds_sydney ''Sydney'' = Inr (Some sydney)" by (simp add: finds_sydney_def)
  have c: "network_down ''Sydney'' = Inl GeocoderServiceError" by (simp add: network_down_def)
  show ?thesis
    using a b c
      address_to_gps_outcomes [of no_match "''nowhere''"]
      address_to_gps_outcomes [of finds_sydney "''Sydney''"]
      address_to_gps_outcomes [of network_down "''Sydney''"]
    by simp
qed

subsection \<open>Thumbnails\<close>

lemma saved_count_simps [simp]:
  "saved_count [] = 0"
  "saved_count (Saved m f # evs) = Suc (saved_count evs)"
  "saved_count (Failed m l # evs) = saved_count evs"
  by (simp_all add: saved_count_def)

lemma saved_count_le_length: "saved_count evs \<le> length evs"
  by (simp add: saved_count_def)

lemma loop_stopped [simp]:
  "max_media \<le> int count \<Longrightarrow> thumbnails_loop pil out sz max_media count ms = []"
  by (cases ms) simp_all

lemma loop_prefix:
  "prefix (map event_media (thumbnails_loop pil out sz max_media count ms)) ms"
  by (induction ms arbitrary: count) (auto split: option.splits)

lemma loop_saved_bound:
  "int count \<le> max_media \<Longrightarrow>
   int (count + saved_count (thumbnails_loop pil out sz max_media count ms)) \<le> max_media"
proof (induction ms arbitrary: count)
  case Nil
  then show ?case by simp
next
  case (Cons m ms)
  show ?case
  proof (cases "max_media \<le> int count")
    case True
    with Cons.prems show ?thesis by simp
  next
    case False
    then have next_ok: "int (count + 1) \<le> max_media" by simp
    show ?thesis
      using False Cons.IH [OF next_ok] Cons.IH [OF Cons.prems]
      by (simp split: option.splits)
  qed
qed

lemma loop_stops_only_at_max:
  "length (thumbnails_loop pil out sz max_media count ms) < length ms \<Longrightarrow>
   max_media \<le> int (count + saved_count (thumbnails_loop pil out sz max_media count ms))"
proof (induction ms arbitrary: count)
  case Nil
  then show ?case by simp
next
  case (Cons m ms)
  show ?case
  proof (cases "max_media \<le> int count")
    case True
    then show ?thesis by simp
  next
    case False
    show ?thesis
    proof (cases "pil (path m) sz (out, thumb_name count m)")
      case None
      with False Cons.prems
      have "length (thumbnails_loop pil out sz max_media (count + 1) ms) < length ms" by simp
      from Cons.IH [OF this] False None show ?thesis by simp
    next
      case (Some e)
      with False Cons.prems
      have "length (thumbnails_loop pil out sz max_media count ms) < length ms" by simp
      from Cons.IH [OF this] False Some show ?thesis by simp
    qed
  qed
qed

lemma loop_nth:
  "i < length (thumbnails_loop pil out sz max_media count ms) \<Longrightarrow>
   int (count + saved_count (take i (thumbnails_loop pil out sz max_media count ms))) < max_media
   \<and> thumbnails_loop pil out sz max_media count ms ! i =
       thumb_attempt pil out sz
         (count + saved_count (take i (thumbnails_loop pil out sz max_media count ms))) (ms ! i)"
proof (induction ms arbitrary: count i)
  case Nil
  then show ?case by simp
next
  case (Cons m ms)
  show ?case
  proof (cases "max_media \<le> int count")
    case True
    with Cons.prems show ?thesis by simp
  next
    case running: False
    show ?thesis
    proof (cases "pil (path m) sz (out, thumb_name count m)")
      case None
      show ?thesis
      proof (cases i)
        case 0
        with running None show ?thesis by (simp add: thumb_attempt_def)
      next
        case (Suc j)
        with running None Cons.prems
        have "j < length (thumbnails_loop pil out sz max_media (count + 1) ms)" by simp
        from Cons.IH [OF this] running None Suc show ?thesis by simp
      qed
    next
      case (Some e)
      show ?thesis
      proof (cases i)
        case 0
        with running Some show ?thesis by (simp add: thumb_attempt_def)
      next
        case (Suc j)
        with running Some Cons.prems
        have "j < length (thumbnails_loop pil out sz max_media count ms)" by simp
        from Cons.IH [OF this] running Some Suc show ?thesis by simp
      qed
    qed
  qed
qed

lemma album_events_run:
  "save_thumbnails mkdir_ok stills_only album ''thumbs'' (300, 300) 2 = Inr album_events"
  by (simp add: save_thumbnails_def mkdir_ok_def album_def stills_only_def picture_def
        thumb_name_def str_nat.simps album_events_def)

text \<open>
  C6. When the output directory can be made, \<open>save_thumbnails\<close> goes through the
  filtered set in stored order, one record after the other. Each record it reaches is
  attempted while fewer than \<open>max_media\<close> thumbnails have been saved: the attempt either
  saves the thumbnail under \<open>thumb_k_<filename>\<close>, where \<open>k\<close> is the number of thumbnails
  saved before it, or prints the error line, and the loop goes on to the next record. At
  most \<open>max_media\<close> thumbnails are saved; the loop leaves records unvisited only when
  \<open>max_media\<close> have been saved; with no more than \<open>max_media\<close> records all are visited.
\<close>

theorem save_thumbnails_behaviour:
  "mkdir out_dir = None \<longrightarrow>
     (\<exists>events.
        save_thumbnails mkdir pil self out_dir thumb_size max_media = Inr events
        \<and> prefix (map event_media events) (filtered_media self)
        \<and> (\<forall>i < length events.
              int (saved_count (take i events)) < max_media
              \<and> events ! i =
                  thumb_attempt pil out_dir thumb_size (saved_count (take i events))
                    (filtered_media self ! i))
        \<and> int (saved_count events) \<le> max max_media 0
        \<and> (length events < length (filtered_media self) \<longrightarrow>
              max_media \<le> int (saved_count events))
        \<and> (int (length (filtered_media self)) \<le> max_media \<longrightarrow>
              map event_media events = filtered_media self))"
proof
  assume ok: "mkdir out_dir = None"
  define events where
    "events = thumbnails_loop pil out_dir thumb_size max_media 0 (filtered_media self)"
  have run: "save_thumbnails mkdir pil self out_dir thumb_size max_media = Inr events"
    by (simp add: save_thumbnails_def ok events_def)
  have pre: "prefix (map event_media events) (filtered_media self)"
    unfolding events_def by (rule loop_prefix)
  have each: "\<forall>i < length events.
      int (saved_count (take i events)) < max_media
      \<and> events ! i =
          thumb_attempt pil out_dir thumb_size (saved_count (take i events))
            (filtered_media self ! i)"
    unfolding events_def
    using loop_nth [of _ pil out_dir thumb_size max_media 0 "filtered_media self"] by simp
  have bound: "int (saved_count events) \<le> max max_media 0"
  proof (cases "0 \<le> max_media")
    case True
    then show ?thesis
      unfolding events_def
      using loop_saved_bound [of 0 max_media pil out_dir thumb_size "filtered_media self"]
      by simp
  next
    case False
    then have "events = []" unfolding events_def by simp
    then show ?thesis by simp
  qed
  have stop: "length events < length (filtered_media self) \<longrightarrow>
      max_media \<le> int (saved_count events)"
    unfolding events_def
    using loop_stops_only_at_max [of pil out_dir thumb_size max_media 0 "filtered_media self"]
    by simp
  have all: "int (length (filtered_media self)) \<le> max_media \<longrightarrow>
      map event_media events = filtered_media self"
  proof
    assume few: "int (length (filtered_media self)) \<le> max_media"
    have "\<not> length events < length (filtered_media self)"
    proof
      assume short: "length events < length (filtered_media self)"
      with stop have "max_media \<le> int (saved_count events)" by simp
      moreover have "saved_count events \<le> length events" by (rule saved_count_le_length)
      ultimately show False using short few by linarith
    qed
    then have "length (map event_media events) = length (filtered_media self)"
      using prefix_length_le [OF pre] by simp
    with pre show "map event_media events = filtered_media self"
      by (auto simp: prefix_def)
  qed
  from run pre each bound stop all
  show "\<exists>events.
        save_thumbnails mkdir pil self out_dir thumb_size max_media = Inr events
        \<and> prefix (map event_media events) (filtered_media self)
        \<and> (\<forall>i < length events.
              int (saved_count (take i events)) < max_media
              \<and> events ! i =
                  thumb_attempt pil out_dir thumb_size (saved_count (take i events))
                    (filtered_media self ! i))
        \<and> int (saved_count events) \<le> max max_media 0
        \<and> (length events < length (filtered_media self) \<longrightarrow>
              max_media \<le> int (saved_count events))
        \<and> (int (length (filtered_media self)) \<le> max_media \<longrightarrow>
              map event_media events = filtered_media self)"
    by blast
qed

theorem save_thumbnails_behaviour_witness:
  "mkdir_ok ''thumbs'' = None
   \<and> int (length (filtered_media album)) \<le> 10
   \<and> (\<exists>events.
        save_thumbnails mkdir_ok stills_only album ''thumbs'' (300, 300) 10 = Inr events
        \<and> map event_media events = filtered_media album
        \<and> int (saved_count events) \<le> 10)
   \<and> save_thumbnails mkdir_ok stills_only album ''thumbs'' (300, 300) 2 = Inr album_events
   \<and> length album_events < length (filtered_media album)
   \<and> 2 \<le> int (saved_count album_events)
   \<and> 2 < length album_events
   \<and> album_events ! 2 =
       thumb_attempt stills_only ''thumbs'' (300, 300) (saved_count (take 2 album_events))
         (filtered_media album ! 2)
   \<and> album_events ! 2 = Saved (picture ''c.jpg'') (''thumbs'', ''thumb_1_c.jpg'')"
proof -
  have ok: "mkdir_ok ''thumbs'' = None" by (simp add: mkdir_ok_def)
  have few: "int (length (filtered_media album)) \<le> 10" by (simp add: album_def)
  have short: "length album_events < length (filtered_media album)"
    by (simp add: album_events_def album_def)
  have third: "2 < length album_events" by (simp add: album_events_def)
  have all: "\<exists>events.
        save_thumbnails mkdir_ok stills_only album ''thumbs'' (300, 300) 10 = Inr events
        \<and> map event_media events = filtered_media album
        \<and> int (saved_count events) \<le> 10"
    using save_thumbnails_behaviour [of mkdir_ok "''thumbs''" stills_only album "(300, 300)" 10]
      ok few by auto
  have two: "2 \<le> int (saved_count album_events)
      \<and> album_events ! 2 =
       thumb_attempt stills_only ''thumbs'' (300, 300) (saved_count (take 2 album_events))
         (filtered_media album ! 2)"
    using save_thumbnails_behaviour [of mkdir_ok "''thumbs''" stills_only album "(300, 300)" 2]
      ok short third
    unfolding album_events_run by auto
  have name: "album_events ! 2 = Saved (picture ''c.jpg'') (''thumbs'', ''thumb_1_c.jpg'')"
    by (simp add: album_events_def)
  show ?thesis
    by (intro conjI ok few all album_events_run short two [THEN conjunct1] third
          two [THEN conjunct2] name)
qed

subsection \<open>The file of paths\<close>

lemma write_paths_append: "write_paths f ms = f @ concat (map path_line ms)"
  by (induction ms arbitrary: f) (simp_all add: path_line_def)

lemma lines_from_line:
  "newline \<notin> set p \<Longrightarrow> lines_from cur (p @ newline # rest) = (cur @ p) # lines_from [] rest"
  by (induction p arbitrary: cur) auto

lemma text_lines_path_lines:
  "newline \<notin> set (concat (map path ms)) \<Longrightarrow>
   lines_from [] (concat (map path_line ms)) = map path ms"
  by (induction ms) (simp_all add: path_line_def lines_from_line)

text \<open>
  C7. When the file can be opened, \<open>save_filtered_media_paths\<close> leaves at \<open>filepath\<close> a file
  whose content is, whatever was there before, the paths of the filtered set in order,
  each followed by a newline: as many pieces as the filtered set has records, the i-th
  being the path of the i-th record and a newline. Read back line by line it gives
  exactly the paths, provided no path contains a newline itself. No other file changes.
\<close>

theorem save_filtered_media_paths_content:
  "can_open filepath \<longrightarrow>
     (\<exists>fs' content.
        save_filtered_media_paths can_open self filepath fs = Inr fs'
        \<and> fs' filepath = Some content
        \<and> content = concat (map path_line (filtered_media self))
        \<and> length (map path_line (filtered_media self)) = length (filtered_media self)
        \<and> (\<forall>i < length (filtered_media self).
              map path_line (filtered_media self) ! i = path (filtered_media self ! i) @ [newline])
        \<and> (newline \<notin> set (concat (map path (filtered_media self))) \<longrightarrow>
              text_lines content = map path (filtered_media self))
        \<and> (\<forall>other. other \<noteq> filepath \<longrightarrow> fs' other = fs other))"
  by (simp add: save_filtered_media_paths_def write_paths_append text_lines_def
        text_lines_path_lines path_line_def)

theorem save_filtered_media_paths_content_witness:
  "any_file ''paths.txt''
   \<and> newline \<notin> set (concat (map path (filtered_media album)))
   \<and> (\<exists>fs' content.
        save_filtered_media_paths any_file album ''paths.txt'' old_files = Inr fs'
        \<and> fs' ''paths.txt'' = Some content
        \<and> content = concat (map path_line (filtered_media album))
        \<and> text_lines content = [''/lib/a.jpg'', ''/lib/b.mov'', ''/lib/c.jpg'', ''/lib/d.jpg'']
        \<and> fs' ''notes.txt'' = Some ''keep'')"
proof -
  have ok: "any_file ''paths.txt''" by (simp add: any_file_def)
  have clean: "newline \<notin> set (concat (map path (filtered_media album)))"
    by (simp add: album_def picture_def newline_def)
  have paths: "map path (filtered_media album)
      = [''/lib/a.jpg'', ''/lib/b.mov'', ''/lib/c.jpg'', ''/lib/d.jpg'']"
    by (simp add: album_def picture_def)
  have other: "''notes.txt'' \<noteq> ''paths.txt''" by simp
  have old: "old_files ''notes.txt'' = Some ''keep''" by (simp add: old_files_def)
  from save_filtered_media_paths_content
         [of any_file "''paths.txt''" album old_files, THEN mp, OF ok]
  obtain fs' content where
    run: "save_filtered_media_paths any_file album ''paths.txt'' old_files = Inr fs'" and
    written: "fs' ''paths.txt'' = Some content" and
    content: "content = concat (map path_line (filtered_media album))" and
    lines: "newline \<notin> set (concat (map path (filtered_media album))) \<longrightarrow>
              text_lines content = map path (filtered_media album)" and
    rest: "\<forall>other. other \<noteq> ''paths.txt'' \<longrightarrow> fs' other = old_files other"
    by (elim exE conjE) (rule that; assumption)
  from lines clean paths
  have lines': "text_lines content = [''/lib/a.jpg'', ''/lib/b.mov'', ''/lib/c.jpg'', ''/lib/d.jpg'']"
    by simp
  from rest other old have kept: "fs' ''notes.txt'' = Some ''keep''"
    by simp
  from run written content lines' kept
  have "\<exists>fs' content.
        save_filtered_media_paths any_file album ''paths.txt'' old_files = Inr fs'
        \<and> fs' ''paths.txt'' = Some content
        \<and> content = concat (map path_line (filtered_media album))
        \<and> text_lines content = [''/lib/a.jpg'', ''/lib/b.mov'', ''/lib/c.jpg'', ''/lib/d.jpg'']
        \<and> fs' ''notes.txt'' = Some ''keep''"
    by blast
  with ok clean show ?thesis by (intro conjI)
qed

subsection \<open>The maximum distance\<close>

lemma after_call_max_distance:
  "max_distance_km (after_call now geo g self c) =
     (case c of SetDistanceKm d \<Rightarrow> d | _ \<Rightarrow> max_distance_km self)"
  by (cases c)
     (auto simp: set_date_range_def set_location_by_address_def set_location_by_gps_def
        set_distance_km_def clear_filters_def
        split: sum.splits option.splits dest: filter_media_frame)

lemma after_calls_positive:
  "0 < max_distance_km self \<Longrightarrow> list_all distance_arg_positive cs \<Longrightarrow>
   0 < max_distance_km (after_calls now geo g self cs)"
proof (induction cs arbitrary: self)
  case Nil
  then show ?case by simp
next
  case (Cons c cs)
  from Cons.prems have "0 < max_distance_km (after_call now geo g self c)"
    by (auto simp: after_call_max_distance split: method_call.splits)
  with Cons show ?case by simp
qed

lemma init_max_distance:
  "init s e t (Inr d) md now geo db = Inr self \<Longrightarrow>
   max_distance_km self = resolved_max_distance md d"
  by (auto simp: init_def resolved_max_distance_def Let_def
        split: option.splits if_splits sum.splits)

text \<open>
  C10, as the code has it. The constructor stores the maximum distance it is given (the
  argument, else the configured value, else 2.0) and \<open>set_distance_km\<close> stores its
  argument, both without looking at the sign; no other method changes the maximum
  distance. So it stays positive through any sequence of calls in which it starts
  positive and every argument of \<open>set_distance_km\<close> is positive.
\<close>

theorem max_distance_km_stored_unchecked:
  "(init s e t (Inr d) md now geo db = Inr self \<longrightarrow>
      max_distance_km self = resolved_max_distance md d)
   \<and> max_distance_km (set_distance_km obj v) = v
   \<and> ((\<forall>v. c \<noteq> SetDistanceKm v) \<longrightarrow>
        max_distance_km (after_call now geo g obj c) = max_distance_km obj)
   \<and> (0 < max_distance_km obj \<and> list_all distance_arg_positive cs \<longrightarrow>
        0 < max_distance_km (after_calls now geo g obj cs))"
proof -
  have "(\<forall>v. c \<noteq> SetDistanceKm v) \<longrightarrow>
        max_distance_km (after_call now geo g obj c) = max_distance_km obj"
    by (simp add: after_call_max_distance split: method_call.splits)
  then show ?thesis
    by (simp add: init_max_distance set_distance_km_def after_calls_positive)
qed

theorem max_distance_km_stored_unchecked_witness:
  "scenario 0 = Inr (scenario_object 0)
   \<and> max_distance_km (scenario_object 0) = 10
   \<and> max_distance_km (set_distance_km (scenario_object 0) 42) = 42
   \<and> max_distance_km (after_call 0 no_match scenario_geodesic_km (scenario_object 0) ClearFilters)
       = 10
   \<and> 0 < max_distance_km (scenario_object 0)
   \<and> list_all distance_arg_positive [FilterMedia ''all'', SetDistanceKm 42, ClearFilters]
   \<and> 0 < max_distance_km (after_calls 0 no_match scenario_geodesic_km (scenario_object 0)
             [FilterMedia ''all'', SetDistanceKm 42, ClearFilters])"
proof -
  have built: "init (Naive (0 - timedelta_days 3)) (Some (Naive 0)) None (Inr default_config)
       None 0 no_match
       [record_a 0, record_b 0, record_c 0] = Inr (scenario_object 0)"
    using scenario_is_object [of 0] by (simp add: scenario_def)
  have res: "resolved_max_distance None default_config = 10"
    by (simp add: resolved_max_distance_def default_config_def)
  have pos: "list_all distance_arg_positive [FilterMedia ''all'', SetDistanceKm 42, ClearFilters]"
    by simp
  have other: "\<forall>v. ClearFilters \<noteq> SetDistanceKm v" by simp
  have ten: "max_distance_km (scenario_object 0) = 10"
    using max_distance_km_stored_unchecked
      [where s = "Naive (0 - timedelta_days 3)" and e = "Some (Naive 0)" and t = None and d = default_config
         and md = None and now = 0 and geo = no_match
         and db = "[record_a 0, record_b 0, record_c 0]" and self = "scenario_object 0"]
      built res by simp
  show ?thesis
    using ten pos other scenario_is_object [of 0]
      max_distance_km_stored_unchecked
        [where obj = "scenario_object 0" and v = 42 and c = ClearFilters and now = 0
           and geo = no_match and g = scenario_geodesic_km
           and cs = "[FilterMedia ''all'', SetDistanceKm 42, ClearFilters]"]
    by simp
qed

text \<open>
  C10 as stated fails: after \<open>set_distance_km(-1)\<close> on the object of the scenario the
  maximum distance is -1.
\<close>

theorem max_distance_km_positive_counterexample:
  "scenario 0 = Inr (scenario_object 0)
   \<and> max_distance_km (set_distance_km (scenario_object 0) (- 1)) = - 1
   \<and> max_distance_km (after_calls 0 no_match scenario_geodesic_km (scenario_object 0)
        [SetDistanceKm (- 1)]) \<le> 0"
  by (simp add: scenario_is_object set_distance_km_def)

end
